theory Spec2Isabelle
  imports Complex_Main
begin

chapter \<open>Placement companion: streaks, filters, forms, mock tests and interviews\<close>

text \<open>
  A shallow embedding of the client logic of the placement-preparation application
  (the React pages under \<open>src/pages\<close>) and of the answer handling of its two edge
  functions (\<open>supabase/functions\<close>), followed by the properties proved of them. Handlers
  are functions of the component state and of the outcomes of their network calls; the
  current day, \<open>JSON.parse\<close> and the tables of the backend are arguments or small models
  of their own, each introduced where it is used.
\<close>

section \<open>List filters of the Applications and Coding Practice pages\<close>

text \<open>
  The rows shown by the two list pages. Only the fields the modelled code reads are kept.
  The TypeScript unions (\<open>'applied' | 'oa' | ...\<close>, \<open>'easy' | 'medium' | 'hard'\<close>) are
  strings at run time and are compared as strings with the filter settings, whose extra
  value \<open>'all'\<close> switches a filter off.

  The two date fields are \<open>DATE\<close> columns, which reach the client as strings of the
  fixed form \<open>YYYY-MM-DD\<close>. On such strings JavaScript's default \<open>sort()\<close> and \<open>===\<close>
  are the order and the equality of calendar days, so a date is represented by its day
  number (days since 1970-01-01).
\<close>

record Application =
  app_id :: string
  app_user_id :: string
  company_name :: string
  app_role :: string
  job_type :: string
  app_status :: string
  apply_date :: int

record CodingProblem =
  prob_id :: string
  prob_user_id :: string
  platform :: string
  problem_name :: string
  difficulty :: string
  prob_status :: string
  date_practiced :: int

text \<open>
  \<^verbatim>\<open>applications.filter((app) => {
    if (filterStatus !== 'all' && app.status !== filterStatus) return false;
    if (filterType !== 'all' && app.job_type !== filterType) return false;
    return true; })\<close>
\<close>

definition app_shown :: "string \<Rightarrow> string \<Rightarrow> Application \<Rightarrow> bool" where
  "app_shown filterStatus filterType app =
     (if filterStatus \<noteq> ''all'' \<and> app_status app \<noteq> filterStatus then False
      else if filterType \<noteq> ''all'' \<and> job_type app \<noteq> filterType then False
      else True)"

definition filteredApps :: "string \<Rightarrow> string \<Rightarrow> Application list \<Rightarrow> Application list" where
  "filteredApps filterStatus filterType applications =
     filter (app_shown filterStatus filterType) applications"

text \<open>
  \<^verbatim>\<open>problems.filter((problem) => {
    if (filterPlatform !== 'all' && problem.platform !== filterPlatform) return false;
    if (filterDifficulty !== 'all' && problem.difficulty !== filterDifficulty) return false;
    return true; })\<close>
\<close>

definition problem_shown :: "string \<Rightarrow> string \<Rightarrow> CodingProblem \<Rightarrow> bool" where
  "problem_shown filterPlatform filterDifficulty problem =
     (if filterPlatform \<noteq> ''all'' \<and> platform problem \<noteq> filterPlatform then False
      else if filterDifficulty \<noteq> ''all'' \<and> difficulty problem \<noteq> filterDifficulty then False
      else True)"

definition filteredProblems ::
  "string \<Rightarrow> string \<Rightarrow> CodingProblem list \<Rightarrow> CodingProblem list" where
  "filteredProblems filterPlatform filterDifficulty problems =
     filter (problem_shown filterPlatform filterDifficulty) problems"

text \<open>Two application rows and two coding-problem rows used in the worked examples.\<close>

definition app_acme :: Application where
  "app_acme = \<lparr>app_id = ''a1'', app_user_id = ''u1'', company_name = ''Acme'',
     app_role = ''SDE'', job_type = ''internship'', app_status = ''applied'',
     apply_date = 19732\<rparr>"

definition app_globex :: Application where
  "app_globex = \<lparr>app_id = ''a2'', app_user_id = ''u1'', company_name = ''Globex'',
     app_role = ''Analyst'', job_type = ''full_time'', app_status = ''interview'',
     apply_date = 19734\<rparr>"

definition prob_two_sum :: CodingProblem where
  "prob_two_sum = \<lparr>prob_id = ''p1'', prob_user_id = ''u1'', platform = ''LeetCode'',
     problem_name = ''Two Sum'', difficulty = ''easy'', prob_status = ''solved'',
     date_practiced = 19732\<rparr>"

definition prob_knapsack :: CodingProblem where
  "prob_knapsack = \<lparr>prob_id = ''p2'', prob_user_id = ''u1'', platform = ''CodeChef'',
     problem_name = ''Knapsack'', difficulty = ''hard'', prob_status = ''not_solved'',
     date_practiced = 19733\<rparr>"

section \<open>Notifications and requests\<close>

text \<open>
  Every handler is modelled as a function from the component state and the outcome of
  its network calls to the new state and the list of events it caused, in order: the
  requests it issued and the \<open>toast\<close> notifications it raised.
\<close>

datatype 'r event = Request 'r | ToastSuccess string | ToastError string



section \<open>The mock-test session (MockTests component)\<close>

text \<open>
  A JavaScript array read out of range yields \<open>undefined\<close>, and a write beyond the end
  extends the array, leaving holes that also read as \<open>undefined\<close>. The answers array is
  therefore a list of optional strings, \<open>None\<close> standing for \<open>undefined\<close>.
\<close>

definition js_index :: "'a option list \<Rightarrow> nat \<Rightarrow> 'a option" where
  "js_index xs i = (if i < length xs then xs ! i else None)"

definition js_assign :: "'a option list \<Rightarrow> nat \<Rightarrow> 'a \<Rightarrow> 'a option list" where
  "js_assign xs i v =
     (if i < length xs then xs[i := Some v]
      else xs @ replicate (i - length xs) None @ [Some v])"

text \<open>
  A JavaScript number as far as the score needs it: the quotient \<open>0 / 0\<close> is \<open>NaN\<close>.
  Quotients are kept exact; the rounding of IEEE doubles is not modelled.
\<close>

datatype jsnum = Num rat | NaN

definition js_percent :: "nat \<Rightarrow> nat \<Rightarrow> jsnum" where
  \<comment> \<open>\<^verbatim>\<open>(correctCount / questions.length) * 100\<close>, for \<open>correctCount \<le> questions.length\<close>\<close>
  "js_percent correctCount len =
     (if len = 0 then NaN else Num (of_nat correctCount / of_nat len * 100))"

datatype view = Setup | Test | Result | History

record Question =
  question :: string
  correctAnswer :: string

record MockTest =
  test_id :: string
  total_questions :: int
  correct_answers :: nat
  time_taken :: "int option"
  max_time :: int
  questions :: "Question list"
  answers :: "string option list"
  test_status :: string
  score :: jsnum

record test_state =
  user :: "string option"
  view :: view
  loading :: bool
  currentTest :: "MockTest option"
  currentQuestionIndex :: nat
  selectedAnswers :: "string option list"
  timeRemaining :: int
  numQuestions :: int

text \<open>The fields of the \<open>update\<close> and \<open>insert\<close> calls on table \<open>mock_tests\<close>.\<close>

record test_update =
  upd_correct_answers :: nat
  upd_time_taken :: int
  upd_answers :: "string option list"
  upd_status :: string
  upd_score :: jsnum

datatype test_request =
    GenerateTest int
  | InsertTest string int int "Question list" string
  | UpdateTest string test_update

text \<open>
  \<^verbatim>\<open>questions.forEach((q, index) => {
    if (selectedAnswers[index] === q.correctAnswer) { correctCount++; } });\<close>
\<close>

fun count_correct :: "string option list \<Rightarrow> Question list \<Rightarrow> nat \<Rightarrow> nat \<Rightarrow> nat" where
  "count_correct sel [] index correctCount = correctCount"
| "count_correct sel (q # qs) index correctCount =
     count_correct sel qs (Suc index)
       (if js_index sel index = Some (correctAnswer q) then Suc correctCount else correctCount)"

text \<open>
  \<open>handleSubmitTest\<close>. The argument \<open>update_ok\<close> is the outcome of the one network call,
  the \<open>update\<close> of the test's row: \<open>False\<close> when it returns an error (which the handler
  throws into its \<open>catch\<close>).
\<close>

definition handleSubmitTest :: "bool \<Rightarrow> test_state \<Rightarrow> test_state \<times> test_request event list" where
  "handleSubmitTest update_ok s =
     (case currentTest s of
        None \<Rightarrow> (s, [])
      | Some t \<Rightarrow>
          if user s = None then (s, [])
          else
            let correctCount = count_correct (selectedAnswers s) (questions t) 0 0;
                sc = js_percent correctCount (length (questions t));
                timeTaken = max_time t - timeRemaining s;
                req = Request (UpdateTest (test_id t)
                        \<lparr>upd_correct_answers = correctCount, upd_time_taken = timeTaken,
                         upd_answers = selectedAnswers s, upd_status = ''completed'',
                         upd_score = sc\<rparr>)
            in if update_ok
               then (s\<lparr>currentTest := Some (t\<lparr>correct_answers := correctCount,
                                               time_taken := Some timeTaken,
                                               answers := selectedAnswers s,
                                               test_status := ''completed'',
                                               score := sc\<rparr>),
                       view := Result, loading := False\<rparr>,
                     [req, ToastSuccess ''Test completed!''])
               else (s\<lparr>loading := False\<rparr>, [req, ToastError ''Failed to submit test'']))"

text \<open>
  \<open>handleAnswerSelect\<close>:
  \<^verbatim>\<open>const newAnswers = [...selectedAnswers];
  newAnswers[currentQuestionIndex] = answer;
  setSelectedAnswers(newAnswers);\<close>
  The option buttons that call it are rendered only under
  \<^verbatim>\<open>view === "test" && currentTest && currentQuestion\<close>, where \<open>currentQuestion\<close> is
  \<^verbatim>\<open>currentTest?.questions[currentQuestionIndex]\<close>.
\<close>

definition handleAnswerSelect :: "string \<Rightarrow> test_state \<Rightarrow> test_state" where
  "handleAnswerSelect answer s =
     s\<lparr>selectedAnswers := js_assign (selectedAnswers s) (currentQuestionIndex s) answer\<rparr>"

definition question_rendered :: "test_state \<Rightarrow> bool" where
  "question_rendered s =
     (view s = Test \<and>
      (case currentTest s of None \<Rightarrow> False
       | Some t \<Rightarrow> currentQuestionIndex s < length (questions t)))"

text \<open>
  The timer effect installs an interval only when
  \<^verbatim>\<open>view === "test" && currentTest && timeRemaining > 0\<close>; each tick runs the updater
  \<^verbatim>\<open>(prev) => { if (prev <= 1) { clearInterval(timer); handleSubmitTest(); return 0; }
               return prev - 1; }\<close>
  The updater is modelled with the new value and a flag telling whether it called
  \<open>handleSubmitTest\<close>.
\<close>

definition timer_running :: "test_state \<Rightarrow> bool" where
  "timer_running s = (view s = Test \<and> currentTest s \<noteq> None \<and> timeRemaining s > 0)"

definition tick_update :: "int \<Rightarrow> int \<times> bool" where
  "tick_update prev = (if prev \<le> 1 then (0, True) else (prev - 1, False))"

definition timer_tick :: "test_state \<Rightarrow> test_state \<times> bool" where
  "timer_tick s =
     (if timer_running s
      then (s\<lparr>timeRemaining := fst (tick_update (timeRemaining s))\<rparr>,
            snd (tick_update (timeRemaining s)))
      else (s, False))"

text \<open>
  \<open>startTest\<close>. The outcomes of its two calls are arguments: the answer of the
  \<open>generate-test\<close> function (an error message, or the generated questions) and the
  answer of the \<open>insert(...).select().single()\<close> on \<open>mock_tests\<close> (an error message, or
  the id of the stored row, which comes back with the inserted fields and the column
  defaults).
\<close>

datatype generated = GenerateFailed string | Generated "Question list"

datatype inserted = InsertFailed string | Inserted string

definition startTest ::
  "generated \<Rightarrow> inserted \<Rightarrow> test_state \<Rightarrow> test_state \<times> test_request event list" where
  "startTest gen ins s =
     (case user s of
        None \<Rightarrow> (s, [])
      | Some uid \<Rightarrow>
          (case gen of
             GenerateFailed msg \<Rightarrow>
               (s\<lparr>loading := False\<rparr>, [Request (GenerateTest (numQuestions s)), ToastError msg])
           | Generated qs \<Rightarrow>
               let maxTime = numQuestions s * 60;
                   reqs = [Request (GenerateTest (numQuestions s)),
                           Request (InsertTest uid (numQuestions s) maxTime qs ''in_progress'')]
               in (case ins of
                     InsertFailed msg \<Rightarrow> (s\<lparr>loading := False\<rparr>, reqs @ [ToastError msg])
                   | Inserted new_id \<Rightarrow>
                       (s\<lparr>currentTest := Some \<lparr>test_id = new_id,
                                               total_questions = numQuestions s,
                                               correct_answers = 0, time_taken = None,
                                               max_time = maxTime, questions = qs,
                                               answers = [], test_status = ''in_progress'',
                                               score = Num 0\<rparr>,
                          selectedAnswers := replicate (length qs) (Some []),
                          currentQuestionIndex := 0,
                          timeRemaining := maxTime,
                          view := Test, loading := False\<rparr>,
                        reqs @ [ToastSuccess ''Test started! Good luck!'']))))"

text \<open>
  The states of a running test: those reached from a successful \<open>startTest\<close> by the
  events of the test view, namely answer selection (offered only while the current
  question is rendered), the three navigation controls, timer ticks, and a submission
  whose \<open>update\<close> fails. The setup screen offers 5, 10, 15 or 20 questions.
\<close>

inductive in_test :: "test_state \<Rightarrow> bool" where
  started: "startTest (Generated qs) (Inserted i) s0 = (s, evs) \<Longrightarrow> user s0 \<noteq> None \<Longrightarrow>
            numQuestions s0 \<in> {5, 10, 15, 20} \<Longrightarrow> in_test s"
| answer: "in_test s \<Longrightarrow> question_rendered s \<Longrightarrow> in_test (handleAnswerSelect a s)"
| nav_previous: "in_test s \<Longrightarrow> in_test (s\<lparr>currentQuestionIndex := currentQuestionIndex s - 1\<rparr>)"
| nav_next: "in_test s \<Longrightarrow> currentTest s = Some t \<Longrightarrow>
         int (currentQuestionIndex s) < total_questions t - 1 \<Longrightarrow>
         in_test (s\<lparr>currentQuestionIndex := currentQuestionIndex s + 1\<rparr>)"
| nav_goto: "in_test s \<Longrightarrow> currentTest s = Some t \<Longrightarrow> index < length (questions t) \<Longrightarrow>
         in_test (s\<lparr>currentQuestionIndex := index\<rparr>)"
| tick: "in_test s \<Longrightarrow> in_test (fst (timer_tick s))"
| submit_failed: "in_test s \<Longrightarrow> in_test (fst (handleSubmitTest False s))"

text \<open>A sample session: a two-question test started from the setup screen.\<close>

definition sample_questions :: "Question list" where
  "sample_questions =
     [\<lparr>question = ''2 + 2 = ?'', correctAnswer = ''B''\<rparr>,
      \<lparr>question = ''Capital of France?'', correctAnswer = ''A''\<rparr>]"

definition setup_state :: test_state where
  "setup_state = \<lparr>user = Some ''u1'', view = Setup, loading = False, currentTest = None,
     currentQuestionIndex = 0, selectedAnswers = [], timeRemaining = 0, numQuestions = 5\<rparr>"

definition sample_test :: MockTest where
  "sample_test = \<lparr>test_id = ''t1'', total_questions = 5, correct_answers = 0,
     time_taken = None, max_time = 300, questions = sample_questions, answers = [],
     test_status = ''in_progress'', score = Num 0\<rparr>"

definition started_state :: test_state where
  "started_state = \<lparr>user = Some ''u1'', view = Test, loading = False,
     currentTest = Some sample_test, currentQuestionIndex = 0,
     selectedAnswers = [Some [], Some []], timeRemaining = 300, numQuestions = 5\<rparr>"


section \<open>The practice streak (CodingPractice.calculateStreak, Dashboard.fetchStats)\<close>





text \<open>
  The streak as the specification words it: the number of consecutive calendar days
  with at least one practice entry, ending today or yesterday. \<open>consecutive_days ds e\<close>
  counts the days \<open>e\<close>, \<open>e - 1\<close>, ... for as long as each has an entry; such a run is never
  longer than the list of entries, which bounds the count.
\<close>

fun run_back :: "nat \<Rightarrow> int list \<Rightarrow> int \<Rightarrow> nat" where
  "run_back 0 ds e = 0"
| "run_back (Suc n) ds e = (if e \<in> set ds then Suc (run_back n ds (e - 1)) else 0)"

definition consecutive_days :: "int list \<Rightarrow> int \<Rightarrow> nat" where
  "consecutive_days ds e = run_back (length ds) ds e"


section \<open>Form submission and deletion on the list pages\<close>

text \<open>
  \<open>String.prototype.trim\<close> removes white space and line terminators from both ends.
  A string is a list of code units; among the code units below 256 these are TAB, LF,
  VT, FF, CR, SPACE and NO-BREAK SPACE.
\<close>

definition is_ws :: "char \<Rightarrow> bool" where
  "is_ws c = (of_char c \<in> {9, 10, 11, 12, 13, 32, 160 :: nat})"

definition trim :: "string \<Rightarrow> string" where
  "trim s = rev (dropWhile is_ws (rev (dropWhile is_ws s)))"


subsection \<open>Applications page\<close>




record apps_state =
  a_user :: "string option"
  applications :: "Application list"
  a_loading :: bool
  a_submitting :: bool
  a_isDialogOpen :: bool
  editingApp :: "Application option"
  filterStatus :: string
  filterType :: string
  deleteConfirm_open :: bool
  deleteConfirm_appId :: "string option"










subsection \<open>Coding Practice page\<close>




record coding_state =
  c_user :: "string option"
  problems :: "CodingProblem list"
  c_loading :: bool
  c_submitting :: bool
  c_isDialogOpen :: bool
  editingProblem :: "CodingProblem option"
  filterPlatform :: string
  filterDifficulty :: string
  streak :: nat
  deleteConfirm_popen :: bool
  deleteConfirm_problemId :: "string option"








subsection \<open>Learning page\<close>

record LearningGoal =
  goal_id :: string
  skill_name :: string
  topic_name :: string
  goal_status :: string









section \<open>The mock-interview chat (MockInterviews.sendMessage)\<close>

datatype speaker = User | Assistant

record Message =
  role :: speaker
  content :: string





text \<open>\<open>chunk.split("\n")\<close>: the pieces between line feeds, at least one piece.\<close>

fun split_lines :: "string \<Rightarrow> string list" where
  "split_lines [] = [] # []"
| "split_lines (c # cs) =
     (if c = CHR 0x0A then [] # split_lines cs
      else (case split_lines cs of
              [] \<Rightarrow> [c] # []
            | l # ls \<Rightarrow> (c # l) # ls))"






text \<open>
  The content tokens of a stream: what \<open>parse\<close> yields on the data lines of its chunks,
  in order.
\<close>

definition line_tokens :: "(string \<Rightarrow> string option) \<Rightarrow> string \<Rightarrow> string list" where
  "line_tokens parse line =
     (if take 6 line = ''data: '' \<and> line \<noteq> ''data: [DONE]''
      then (case parse (drop 6 line) of None \<Rightarrow> [] | Some c \<Rightarrow> [c])
      else [])"

definition stream_tokens :: "(string \<Rightarrow> string option) \<Rightarrow> string list \<Rightarrow> string list" where
  "stream_tokens parse chunks =
     concat (map (line_tokens parse) (concat (map split_lines chunks)))"



definition sample_parse :: "string \<Rightarrow> string option" where
  "sample_parse text =
     (if text = ''{\"choices\":[{\"delta\":{\"content\":\"Why \"}}]}'' then Some ''Why ''
      else if text = ''{\"choices\":[{\"delta\":{\"content\":\"graphs?\"}}]}'' then Some ''graphs?''
      else None)"




section \<open>Reading the AI answer in the edge functions\<close>

text \<open>
  Both functions receive the AI gateway's payload and read
  \<open>data.choices?.[0]?.message?.content\<close>, here \<open>aiContent\<close>: \<open>None\<close> when the payload has
  no such field. \<open>JSON.parse\<close> is an argument of the model: \<open>parse text\<close> is \<open>None\<close> when it
  throws and the parsed value otherwise. The body of an answer is the value that is
  serialised into it.
\<close>

datatype error_message =
    Message string
  | TypeError_message
  | SyntaxError_message

record placeholder =
  ph_score :: nat
  ph_summary :: string
  ph_atsScore :: nat
  rawResponse :: string

datatype 'j body = Parsed 'j | Fallback placeholder | ErrorObject error_message

record 'j http_response =
  status :: nat
  body :: "'j body"

subsection \<open>generate-test\<close>

text \<open>
  \<^verbatim>\<open>content.match(/\{[\s\S]*\}/)\<close>: the span from the first \<open>{\<close> to the last \<open>}\<close> after it,
  if there is one.
\<close>

definition brace_span :: "string \<Rightarrow> string option" where
  "brace_span text =
     (let from_open = dropWhile (\<lambda>c. c \<noteq> CHR ''{'') text;
          span = rev (dropWhile (\<lambda>c. c \<noteq> CHR ''}'') (rev from_open))
      in if span = [] then None else Some span)"

text \<open>
  \<^verbatim>\<open>const jsonMatch = content.match(/\{[\s\S]*\}/);
  if (!jsonMatch) { throw new Error("Failed to parse questions from AI response"); }
  const questions = JSON.parse(jsonMatch[0]);
  return new Response(JSON.stringify(questions), ...);\<close>
  inside the handler's \<open>try\<close>, whose \<open>catch\<close> answers with status 500 and the body
  \<open>{ error: message }\<close>. There is no \<open>try\<close> around the parse itself.
\<close>

definition generate_test :: "(string \<Rightarrow> 'j option) \<Rightarrow> string option \<Rightarrow> 'j http_response" where
  "generate_test parse aiContent =
     (case aiContent of
        None \<Rightarrow> \<lparr>status = 500, body = ErrorObject TypeError_message\<rparr>
      | Some text \<Rightarrow>
          (case brace_span text of
             None \<Rightarrow>
               \<lparr>status = 500,
                body = ErrorObject (Message ''Failed to parse questions from AI response'')\<rparr>
           | Some jsonMatch \<Rightarrow>
               (case parse jsonMatch of
                  None \<Rightarrow> \<lparr>status = 500, body = ErrorObject SyntaxError_message\<rparr>
                | Some parsed \<Rightarrow> \<lparr>status = 200, body = Parsed parsed\<rparr>)))"

subsection \<open>analyze-resume\<close>

text \<open>
  \<^verbatim>\<open>content.match(/```(?:json)?\s*([\s\S]*?)```/)\<close>, capture group 1: after the first
  fence, an optional \<open>json\<close> and white space are skipped, and the text up to the next
  fence is captured. \<open>after_fence\<close> is the text behind the first fence, \<open>before_fence\<close> the
  text in front of it.
\<close>

fun after_fence :: "string \<Rightarrow> string option" where
  "after_fence [] = None"
| "after_fence (c # cs) =
     (if take 3 (c # cs) = ''```'' then Some (drop 3 (c # cs)) else after_fence cs)"

fun before_fence :: "string \<Rightarrow> string option" where
  "before_fence [] = None"
| "before_fence (c # cs) =
     (if take 3 (c # cs) = ''```'' then Some []
      else (case before_fence cs of None \<Rightarrow> None | Some t \<Rightarrow> Some (c # t)))"

definition fenced_block :: "string \<Rightarrow> string option" where
  "fenced_block text =
     (case after_fence text of
        None \<Rightarrow> None
      | Some rest \<Rightarrow>
          before_fence
            (dropWhile is_ws (if take 4 rest = ''json'' then drop 4 rest else rest)))"

text \<open>
  \<^verbatim>\<open>const jsonMatch = content.match(...) || [null, content];
  const jsonStr = jsonMatch[1]?.trim() || content.trim();\<close>
\<close>

definition jsonStr :: "string \<Rightarrow> string" where
  "jsonStr text =
     (case fenced_block text of
        None \<Rightarrow> trim text
      | Some block \<Rightarrow> if trim block \<noteq> [] then trim block else trim text)"

text \<open>
  \<^verbatim>\<open>if (!content) { throw new Error('No response from AI'); }
  let analysis;
  try { ... analysis = JSON.parse(jsonStr); }
  catch (parseError) { analysis = { score: 0,
      summary: "Unable to parse analysis. Please try again.", ..., rawResponse: content }; }
  return new Response(JSON.stringify(analysis), ...);\<close>
  The lists and notes of the placeholder are empty and are left out.
\<close>

definition analyze_resume :: "(string \<Rightarrow> 'j option) \<Rightarrow> string option \<Rightarrow> 'j http_response" where
  "analyze_resume parse aiContent =
     (case aiContent of
        None \<Rightarrow> \<lparr>status = 500, body = ErrorObject (Message ''No response from AI'')\<rparr>
      | Some text \<Rightarrow>
          if text = []
          then \<lparr>status = 500, body = ErrorObject (Message ''No response from AI'')\<rparr>
          else
            (case parse (jsonStr text) of
               Some analysis \<Rightarrow> \<lparr>status = 200, body = Parsed analysis\<rparr>
             | None \<Rightarrow>
                 \<lparr>status = 200,
                  body = Fallback \<lparr>ph_score = 0,
                           ph_summary = ''Unable to parse analysis. Please try again.'',
                           ph_atsScore = 0, rawResponse = text\<rparr>\<rparr>))"

text \<open>
  Sample answers. \<open>parse_sample\<close> gives what \<open>JSON.parse\<close> gives on the texts of the
  samples: the text \<open>{}\<close> is the empty object (written as its serialisation), and the
  other texts, which carry words or fences around it, raise a \<open>SyntaxError\<close>.
\<close>

definition parse_sample :: "string \<Rightarrow> string option" where
  "parse_sample text = (if text = ''{}'' then Some ''{}'' else None)"

definition chatty_answer :: string where
  "chatty_answer = ''Here you go: {}''"

definition fenced_answer :: string where
  "fenced_answer = ''```json'' @ [CHR 0x0A] @ ''{}'' @ [CHR 0x0A] @ ''```''"

definition prose_answer :: string where
  "prose_answer = ''I cannot help with that.''"

section \<open>Properties of the list filters\<close>

lemma app_shown_iff:
  "app_shown fs ft a \<longleftrightarrow> (fs = ''all'' \<or> app_status a = fs) \<and> (ft = ''all'' \<or> job_type a = ft)"
  unfolding app_shown_def by (cases "fs = ''all''"; cases "ft = ''all''"; simp)

lemma problem_shown_iff:
  "problem_shown fp fd p \<longleftrightarrow> (fp = ''all'' \<or> platform p = fp) \<and> (fd = ''all'' \<or> difficulty p = fd)"
  unfolding problem_shown_def by (cases "fp = ''all''"; cases "fd = ''all''"; simp)

text \<open>
  Claim C7. The displayed application list is the two-predicate filter of the full list:
  a record is shown iff (the status filter is \<open>'all'\<close> or equals the record's status) and
  (the type filter is \<open>'all'\<close> or equals the record's job type). The two filters act
  independently: filtering by both is filtering by one and then by the other, in either
  order. The same holds for the coding-problem list with its platform and difficulty
  filters.
\<close>

theorem filtered_lists_are_naive_conjunction:
  "filteredApps fs ft apps =
     filter (\<lambda>a. (fs = ''all'' \<or> app_status a = fs) \<and> (ft = ''all'' \<or> job_type a = ft)) apps
   \<and> filteredApps fs ft apps = filteredApps fs ''all'' (filteredApps ''all'' ft apps)
   \<and> filteredApps fs ft apps = filteredApps ''all'' ft (filteredApps fs ''all'' apps)
   \<and> filteredProblems fp fd probs =
     filter (\<lambda>p. (fp = ''all'' \<or> platform p = fp) \<and> (fd = ''all'' \<or> difficulty p = fd)) probs
   \<and> filteredProblems fp fd probs = filteredProblems fp ''all'' (filteredProblems ''all'' fd probs)
   \<and> filteredProblems fp fd probs = filteredProblems ''all'' fd (filteredProblems fp ''all'' probs)"
proof -
  have a1: "filteredApps fs ft apps =
      filter (\<lambda>a. (fs = ''all'' \<or> app_status a = fs) \<and> (ft = ''all'' \<or> job_type a = ft)) apps"
    unfolding filteredApps_def by (rule filter_cong) (simp_all add: app_shown_iff)
  have a2: "filteredApps fs ft apps = filteredApps fs ''all'' (filteredApps ''all'' ft apps)"
    unfolding filteredApps_def filter_filter by (rule filter_cong) (auto simp: app_shown_iff)
  have a3: "filteredApps fs ft apps = filteredApps ''all'' ft (filteredApps fs ''all'' apps)"
    unfolding filteredApps_def filter_filter by (rule filter_cong) (auto simp: app_shown_iff)
  have p1: "filteredProblems fp fd probs =
      filter (\<lambda>p. (fp = ''all'' \<or> platform p = fp) \<and> (fd = ''all'' \<or> difficulty p = fd)) probs"
    unfolding filteredProblems_def by (rule filter_cong) (simp_all add: problem_shown_iff)
  have p2: "filteredProblems fp fd probs =
      filteredProblems fp ''all'' (filteredProblems ''all'' fd probs)"
    unfolding filteredProblems_def filter_filter
    by (rule filter_cong) (auto simp: problem_shown_iff)
  have p3: "filteredProblems fp fd probs =
      filteredProblems ''all'' fd (filteredProblems fp ''all'' probs)"
    unfolding filteredProblems_def filter_filter
    by (rule filter_cong) (auto simp: problem_shown_iff)
  from a1 a2 a3 p1 p2 p3 show ?thesis by blast
qed

theorem filtered_lists_are_naive_conjunction_witness:
  "filteredApps ''interview'' ''full_time'' [app_acme, app_globex] = [app_globex]
   \<and> filteredApps ''interview'' ''all'' (filteredApps ''all'' ''full_time'' [app_acme, app_globex])
       = [app_globex]
   \<and> filteredProblems ''all'' ''easy'' [prob_two_sum, prob_knapsack] = [prob_two_sum]
   \<and> filteredProblems ''all'' ''all'' [prob_two_sum, prob_knapsack]
       = [prob_two_sum, prob_knapsack]"
  using filtered_lists_are_naive_conjunction
    [of "''interview''" "''full_time''" "[app_acme, app_globex]"
        "''all''" "''easy''" "[prob_two_sum, prob_knapsack]"]
    filtered_lists_are_naive_conjunction
    [of "''interview''" "''full_time''" "[app_acme, app_globex]"
        "''all''" "''all''" "[prob_two_sum, prob_knapsack]"]
  by (simp add: app_acme_def app_globex_def prob_two_sum_def prob_knapsack_def)

section \<open>Properties of the mock-test session\<close>






lemma in_test_invariant:
  "in_test s \<Longrightarrow>
     view s = Test \<and> 0 \<le> timeRemaining s \<and>
     (\<exists>t. currentTest s = Some t \<and> length (selectedAnswers s) = length (questions t))"
proof (induction rule: in_test.induct)
  case (started qs i s0 s evs)
  then show ?case
    by (auto simp: startTest_def Let_def split: option.splits)
next
  case (answer s a)
  then show ?case
    by (auto simp: handleAnswerSelect_def question_rendered_def js_assign_def)
next
  case (tick s)
  then show ?case
    by (auto simp: timer_tick_def tick_update_def)
next
  case (submit_failed s)
  then show ?case
    by (auto simp: handleSubmitTest_def Let_def split: option.splits)
qed auto


lemma startTest_sample:
  "startTest (Generated sample_questions) (Inserted ''t1'') setup_state =
     (started_state,
      [Request (GenerateTest 5),
       Request (InsertTest ''u1'' 5 300 sample_questions ''in_progress''),
       ToastSuccess ''Test started! Good luck!''])"
  by (simp add: startTest_def setup_state_def started_state_def sample_test_def
      sample_questions_def Let_def)

lemma in_test_started_state: "in_test started_state"
  by (rule in_test.started [OF startTest_sample]) (simp_all add: setup_state_def)



lemma js_assign_in_range:
  "i < length xs \<Longrightarrow>
     js_assign xs i v = xs[i := Some v] \<and> length (js_assign xs i v) = length xs
     \<and> js_index (js_assign xs i v) i = Some v
     \<and> (\<forall>j. j \<noteq> i \<longrightarrow> js_index (js_assign xs i v) j = js_index xs j)"
  by (simp add: js_assign_def js_index_def)

text \<open>
  Claim C10. In every state of a running test the answers array is as long as the
  question list. Selecting an answer while question \<open>i\<close> is shown stores the chosen
  option at index \<open>i\<close>, leaves every other index and every other state variable as
  they were, and keeps the length.
\<close>

theorem answer_selection_frame:
  assumes "in_test s"
  shows "\<exists>t. currentTest s = Some t
           \<and> length (selectedAnswers s) = length (questions t)
           \<and> (question_rendered s \<longrightarrow>
                handleAnswerSelect a s =
                  s\<lparr>selectedAnswers := (selectedAnswers s)[currentQuestionIndex s := Some a]\<rparr>
              \<and> length (selectedAnswers (handleAnswerSelect a s)) = length (questions t)
              \<and> js_index (selectedAnswers (handleAnswerSelect a s)) (currentQuestionIndex s) = Some a
              \<and> (\<forall>j. j \<noteq> currentQuestionIndex s \<longrightarrow>
                    js_index (selectedAnswers (handleAnswerSelect a s)) j =
                    js_index (selectedAnswers s) j))"
proof -
  from in_test_invariant [OF assms] obtain t where
    t: "currentTest s = Some t" and len: "length (selectedAnswers s) = length (questions t)"
    by blast
  have "handleAnswerSelect a s =
          s\<lparr>selectedAnswers := (selectedAnswers s)[currentQuestionIndex s := Some a]\<rparr>
      \<and> length (selectedAnswers (handleAnswerSelect a s)) = length (questions t)
      \<and> js_index (selectedAnswers (handleAnswerSelect a s)) (currentQuestionIndex s) = Some a
      \<and> (\<forall>j. j \<noteq> currentQuestionIndex s \<longrightarrow>
            js_index (selectedAnswers (handleAnswerSelect a s)) j =
            js_index (selectedAnswers s) j)"
    if "question_rendered s"
  proof -
    from that t len have "currentQuestionIndex s < length (selectedAnswers s)"
      by (simp add: question_rendered_def)
    with len show ?thesis
      by (simp add: handleAnswerSelect_def js_assign_def js_index_def)
  qed
  with t len show ?thesis by blast
qed

theorem answer_selection_frame_witness:
  "in_test started_state \<and> question_rendered started_state
   \<and> currentTest started_state = Some sample_test
   \<and> length (questions sample_test) = 2
   \<and> selectedAnswers (handleAnswerSelect ''B'' started_state) = [Some ''B'', Some []]"
proof -
  have q: "question_rendered started_state"
    by (simp add: question_rendered_def started_state_def sample_test_def sample_questions_def)
  from answer_selection_frame [OF in_test_started_state, of "''B''"] q
  have "handleAnswerSelect ''B'' started_state =
      started_state\<lparr>selectedAnswers :=
        (selectedAnswers started_state)[currentQuestionIndex started_state := Some ''B'']\<rparr>"
    by auto
  then have "selectedAnswers (handleAnswerSelect ''B'' started_state) = [Some ''B'', Some []]"
    by (simp add: started_state_def)
  with q in_test_started_state show ?thesis
    by (simp add: started_state_def sample_test_def sample_questions_def)
qed


section \<open>Properties of the practice streak\<close>


lemma run_back_prefix:
  "(\<forall>j < run_back n ds e. e - int j \<in> set ds)
   \<and> (run_back n ds e < n \<longrightarrow> e - int (run_back n ds e) \<notin> set ds)
   \<and> run_back n ds e \<le> n"
proof (induction n arbitrary: e)
  case 0
  then show ?case by simp
next
  case (Suc n)
  show ?case
  proof (cases "e \<in> set ds")
    case False
    then show ?thesis by simp
  next
    case True
    from Suc.IH [of "e - 1"] have
      a: "\<forall>j < run_back n ds (e - 1). e - 1 - int j \<in> set ds"
      and b: "run_back n ds (e - 1) < n \<longrightarrow> e - 1 - int (run_back n ds (e - 1)) \<notin> set ds"
      and c: "run_back n ds (e - 1) \<le> n"
      by blast+
    have "e - int j \<in> set ds" if "j < Suc (run_back n ds (e - 1))" for j
    proof (cases j)
      case 0
      with True show ?thesis by simp
    next
      case (Suc k)
      with that a have "e - 1 - int k \<in> set ds" by simp
      with Suc show ?thesis by (simp add: algebra_simps)
    qed
    moreover have "e - int (Suc (run_back n ds (e - 1))) \<notin> set ds"
      if "run_back n ds (e - 1) < n"
      using b that by (simp add: algebra_simps)
    ultimately show ?thesis using True c by simp
  qed
qed

lemma run_le_card:
  assumes "\<forall>j < k. e - int j \<in> set ds"
  shows "k \<le> card (set ds)"
proof -
  have inj: "inj_on (\<lambda>j. e - int j) {..<k}" by (auto simp: inj_on_def)
  have "(\<lambda>j. e - int j) ` {..<k} \<subseteq> set ds" using assms by auto
  then have "card ((\<lambda>j. e - int j) ` {..<k}) \<le> card (set ds)"
    by (intro card_mono) auto
  with inj show ?thesis by (simp add: card_image)
qed

text \<open>
  The bounded count is the length of the run: the least \<open>n\<close> such that day \<open>e - n\<close> has
  no entry.
\<close>

lemma consecutive_days_least:
  "consecutive_days ds e = (LEAST n. e - int n \<notin> set ds)"
proof -
  let ?r = "run_back (length ds) ds e"
  from run_back_prefix [of "length ds" ds e] have
    pre: "\<forall>j < ?r. e - int j \<in> set ds"
    and stop: "?r < length ds \<longrightarrow> e - int ?r \<notin> set ds"
    and le: "?r \<le> length ds" by blast+
  have out: "e - int ?r \<notin> set ds"
  proof (cases "?r < length ds")
    case True
    with stop show ?thesis by simp
  next
    case False
    with le have r: "?r = length ds" by simp
    let ?I = "(\<lambda>j. e - int j) ` {..<?r}"
    have sub: "?I \<subseteq> set ds" using pre by auto
    have inj: "inj_on (\<lambda>j. e - int j) {..<?r}" by (auto simp: inj_on_def)
    have "card (set ds) \<le> length ds" by (rule card_length)
    also have "\<dots> = card ?I" using inj r by (simp add: card_image)
    finally have "?I = set ds" using sub by (intro card_seteq) auto
    moreover have "e - int ?r \<notin> ?I" by auto
    ultimately show ?thesis by simp
  qed
  have "(LEAST n. e - int n \<notin> set ds) = ?r"
  proof (rule Least_equality)
    show "e - int ?r \<notin> set ds" by (rule out)
  next
    fix y assume "e - int y \<notin> set ds"
    with pre show "?r \<le> y" by (meson not_le)
  qed
  then show ?thesis by (simp add: consecutive_days_def)
qed







section \<open>The string helpers at work\<close>

text \<open>
  The models of \<open>trim\<close>, \<open>split\<close> and the two regular expressions, run on small texts.
\<close>

lemma trim_examples:
  "trim ''  Acme Corp '' = ''Acme Corp''"
  "trim [CHR 0x09, CHR 0x0A, CHR '' ''] = []"
  "trim [] = []"
  by (simp_all add: trim_def is_ws_def)

lemma split_lines_examples:
  "split_lines [] = [] # []"
  "split_lines (''ab'' @ [CHR 0x0A] @ ''c'') = [''ab'', ''c'']"
  "split_lines (''ab'' @ [CHR 0x0A, CHR 0x0A]) = [''ab'', [], []]"
  by simp_all

lemma brace_span_examples:
  "brace_span ''Here you go: {}'' = Some ''{}''"
  "brace_span ''a{b}c}d'' = Some ''{b}c}''"
  "brace_span ''}{'' = None"
  "brace_span ''no braces'' = None"
  by (simp_all add: brace_span_def)

lemma fenced_block_examples:
  "fenced_block fenced_answer = Some (''{}'' @ [CHR 0x0A])"
  "fenced_block ''x``` json {} ``` y ```'' = Some ''json {} ''"
  "fenced_block ''x```{}'' = None"
  "fenced_block ''plain'' = None"
  by (simp_all add: fenced_block_def fenced_answer_def is_ws_def)

section \<open>Properties of form submission and deletion\<close>












section \<open>Properties of the mock-interview chat\<close>









text \<open>
  A data line cut by a chunk boundary yields no token: its first part does not parse
  (the handler ignores the error) and its second part does not start with \<open>data: \<close>.
\<close>

lemma cut_line_loses_token:
  "stream_tokens sample_parse
     [''data: {\"choices\":[{\"delta\":{\"con'',
      ''tent\":\"Why \"}}]}'' @ [CHR 0x0A, CHR 0x0A]] = []"
  by (simp add: stream_tokens_def line_tokens_def sample_parse_def)


section \<open>Failed submissions\<close>




section \<open>Properties of the edge functions\<close>

text \<open>
  Claim C5, as the code has it. Both functions parse not the content itself but a text
  taken out of it: \<open>analyze-resume\<close> the first fenced block (or the whole content)
  trimmed, \<open>generate-test\<close> the span from the first \<open>{\<close> to the last \<open>}\<close>. When \<open>JSON.parse\<close>
  throws on that text, \<open>analyze-resume\<close> catches it and answers, with status 200, the
  placeholder analysis that carries the raw content; in \<open>generate-test\<close> the error reaches
  the handler's general \<open>catch\<close>, which answers with status 500 and an \<open>error\<close> object, as
  it does when the content has no brace span at all. A missing or empty content is
  answered with status 500 and an \<open>error\<close> object by both.
\<close>

theorem unparsable_answer_gets_error_object:
  "(text \<noteq> [] \<and> parse (jsonStr text) = None \<longrightarrow>
      analyze_resume parse (Some text) =
        \<lparr>status = 200,
         body = Fallback \<lparr>ph_score = 0,
                  ph_summary = ''Unable to parse analysis. Please try again.'',
                  ph_atsScore = 0, rawResponse = text\<rparr>\<rparr>)
   \<and> (brace_span text = None \<longrightarrow>
      generate_test parse (Some text) =
        \<lparr>status = 500,
         body = ErrorObject (Message ''Failed to parse questions from AI response'')\<rparr>)
   \<and> (brace_span text = Some j \<and> parse j = None \<longrightarrow>
      generate_test parse (Some text) =
        \<lparr>status = 500, body = ErrorObject SyntaxError_message\<rparr>)
   \<and> analyze_resume parse None =
        \<lparr>status = 500, body = ErrorObject (Message ''No response from AI'')\<rparr>
   \<and> analyze_resume parse (Some []) =
        \<lparr>status = 500, body = ErrorObject (Message ''No response from AI'')\<rparr>
   \<and> generate_test parse None = \<lparr>status = 500, body = ErrorObject TypeError_message\<rparr>"
  by (simp add: analyze_resume_def generate_test_def)

theorem unparsable_answer_gets_error_object_witness:
  "analyze_resume parse_sample (Some prose_answer) =
     \<lparr>status = 200,
      body = Fallback \<lparr>ph_score = 0,
               ph_summary = ''Unable to parse analysis. Please try again.'',
               ph_atsScore = 0, rawResponse = prose_answer\<rparr>\<rparr>
   \<and> generate_test parse_sample (Some prose_answer) =
     \<lparr>status = 500,
      body = ErrorObject (Message ''Failed to parse questions from AI response'')\<rparr>
   \<and> generate_test parse_sample (Some ''{not json}'') =
     \<lparr>status = 500, body = ErrorObject SyntaxError_message\<rparr>"
proof -
  have a: "prose_answer \<noteq> [] \<and> parse_sample (jsonStr prose_answer) = None"
    by (simp add: prose_answer_def jsonStr_def fenced_block_def trim_def is_ws_def
        parse_sample_def)
  have b: "brace_span prose_answer = None"
    by (simp add: prose_answer_def brace_span_def)
  have c: "brace_span ''{not json}'' = Some ''{not json}'' \<and> parse_sample ''{not json}'' = None"
    by (simp add: brace_span_def parse_sample_def)
  from unparsable_answer_gets_error_object [of prose_answer parse_sample "''{not json}''"]
    unparsable_answer_gets_error_object [of "''{not json}''" parse_sample "''{not json}''"] a b c
  show ?thesis by blast
qed

text \<open>
  The claim as worded fails for a content that is not JSON but wraps JSON: words in
  front of an object for \<open>generate-test\<close>, a fenced block for \<open>analyze-resume\<close>. The
  content does not parse, and the answer is the parsed inner value, not an error object.
\<close>

theorem wrapped_answer_counterexample:
  "parse_sample chatty_answer = None
   \<and> generate_test parse_sample (Some chatty_answer) = \<lparr>status = 200, body = Parsed ''{}''\<rparr>
   \<and> parse_sample fenced_answer = None
   \<and> analyze_resume parse_sample (Some fenced_answer) = \<lparr>status = 200, body = Parsed ''{}''\<rparr>"
  by (simp add: parse_sample_def chatty_answer_def fenced_answer_def generate_test_def
      brace_span_def analyze_resume_def jsonStr_def fenced_block_def trim_def is_ws_def)

end
